theory Spec2Isabelle
  imports Main
begin

section \<open>Strings and Python truthiness\<close>

text \<open>
  A \<open>string\<close> is a list of characters; every \<open>char\<close> stands for one code point
  below 256. \<open>py_isspace\<close> is Python's \<open>str.isspace\<close> on these code points, and
  \<open>strip\<close> is \<open>str.strip()\<close> without arguments.
\<close>

definition py_isspace :: "char \<Rightarrow> bool" where
  "py_isspace c = (of_char c \<in> {9, 10, 11, 12, 13, 28, 29, 30, 31, 32, 133, 160 :: nat})"

definition strip :: "string \<Rightarrow> string" where
  "strip s = rev (dropWhile py_isspace (rev (dropWhile py_isspace s)))"




section \<open>The table \<open>job_listings\<close> (part1\_setup.py)\<close>

text \<open>
  A candidate record is the dictionary the scraper builds; \<open>bulk_insert_jobs\<close> reads
  its six keys with \<open>dict.get\<close>, so each may be \<open>None\<close>. A row of the table adds the
  columns the database fills in: the \<open>SERIAL\<close> key \<open>id\<close> (here \<open>job_id\<close>),
  \<open>job_description\<close> and \<open>scraped_at\<close>.
\<close>

record job_dict =
  job_title :: "string option"
  company_name :: "string option"
  location :: "string option"
  job_url :: "string option"
  salary_info :: "string option"
  source_site :: "string option"

record job_row = job_dict +
  job_id :: nat
  job_description :: "string option"
  scraped_at :: nat

datatype db_error =
    StringDataRightTruncation
  | UniqueViolation
  | InvalidRowCountInLimitClause
  | NumericValueOutOfRange

text \<open>
  The exceptions that can leave a \<open>DatabaseManager\<close> method: a \<open>psycopg2.Error\<close>
  with the error of the database, and the \<open>ValueError\<close> with which psycopg2 refuses
  to adapt a string that contains a NUL character. \<open>ValueError\<close> is not a
  \<open>psycopg2.Error\<close>.
\<close>

datatype py_exception = ValueError | Psycopg2Error db_error

datatype sql_event =
    ExecuteInsert | ExecuteSelect | ExecuteUpdate | Commit | Rollback

datatype log_level = INFO | WARNING | ERROR

text \<open>
  The state the two scripts act on: the committed contents of \<open>job_listings\<close> in
  insertion order, the last value handed out by the sequence behind \<open>id SERIAL\<close>,
  the statements and transaction commands sent over the connection, and the log.
\<close>

record world =
  job_listings :: "job_row list"
  id_seq :: nat
  sql_trace :: "sql_event list"
  log :: "(log_level \<times> string) list"

definition init_world :: world where
  "init_world = \<lparr>job_listings = [], id_seq = 0, sql_trace = [], log = []\<rparr>"

definition logging :: "log_level \<Rightarrow> string \<Rightarrow> world \<Rightarrow> world" where
  "logging lvl msg s = s\<lparr>log := log s @ [(lvl, msg)]\<rparr>"

text \<open>
  Assignment to a \<open>VARCHAR(n)\<close> column: a longer value is an error unless the excess
  characters are all spaces, in which case it is truncated to \<open>n\<close> characters.
  \<open>NULL\<close> is stored as it is.
\<close>

definition varchar :: "nat \<Rightarrow> string option \<Rightarrow> db_error + string option" where
  "varchar n v =
     (case v of
        None \<Rightarrow> Inr None
      | Some s \<Rightarrow>
          if length s \<le> n then Inr (Some s)
          else if list_all (\<lambda>c. c = CHR '' '') (drop n s) then Inr (Some (take n s))
          else Inl StringDataRightTruncation)"

text \<open>
  The six values of one tuple, coerced to the column types of \<open>create_table_query\<close>:
  \<open>job_title\<close>, \<open>company_name\<close>, \<open>location VARCHAR(255)\<close>, \<open>job_url VARCHAR(512)\<close>,
  \<open>salary_info TEXT\<close>, \<open>source_site VARCHAR(100)\<close>.
\<close>

definition coerce_row :: "job_dict \<Rightarrow> db_error + job_dict" where
  "coerce_row j =
     (case varchar 255 (job_title j) of Inl e \<Rightarrow> Inl e | Inr t \<Rightarrow>
     (case varchar 255 (company_name j) of Inl e \<Rightarrow> Inl e | Inr c \<Rightarrow>
     (case varchar 255 (location j) of Inl e \<Rightarrow> Inl e | Inr l \<Rightarrow>
     (case varchar 512 (job_url j) of Inl e \<Rightarrow> Inl e | Inr u \<Rightarrow>
     (case varchar 100 (source_site j) of Inl e \<Rightarrow> Inl e | Inr src \<Rightarrow>
        Inr \<lparr>job_title = t, company_name = c, location = l, job_url = u,
             salary_info = salary_info j, source_site = src\<rparr>)))))"

text \<open>
  \<open>job_url VARCHAR(512) UNIQUE\<close>: a proposed row conflicts with a stored one when
  both urls are the same non-null value (\<open>NULL\<close> never conflicts).
\<close>

definition url_conflict :: "string option \<Rightarrow> job_row list \<Rightarrow> bool" where
  "url_conflict u tbl = (u \<noteq> None \<and> u \<in> set (map job_url tbl))"

definition new_row :: "nat \<Rightarrow> nat \<Rightarrow> job_dict \<Rightarrow> job_row" where
  "new_row i now v =
     \<lparr>job_title = job_title v, company_name = company_name v, location = location v,
      job_url = job_url v, salary_info = salary_info v, source_site = source_site v,
      job_id = i, job_description = None, scraped_at = now\<rparr>"

section \<open>Bulk insertion (part2\_scrape.py)\<close>

text \<open>
  psycopg2 adapts every value of a tuple before the statement is sent; a string with a
  NUL character cannot be adapted.
\<close>

definition has_nul :: "string option \<Rightarrow> bool" where
  "has_nul v = (case v of None \<Rightarrow> False | Some x \<Rightarrow> CHR 0x00 \<in> set x)"

definition tuple_has_nul :: "job_dict \<Rightarrow> bool" where
  "tuple_has_nul j =
     (has_nul (job_title j) \<or> has_nul (company_name j) \<or> has_nul (location j) \<or>
      has_nul (job_url j) \<or> has_nul (salary_info j) \<or> has_nul (source_site j))"

text \<open>
  One statement \<open>INSERT INTO job_listings (...) VALUES ... ON CONFLICT (job_url) DO NOTHING\<close>
  over the tuples of one page. The values are literals of the statement, so they are
  coerced to the column types before any row is processed: one value that is too long
  fails the whole statement, and no value of the sequence is drawn. Then the rows are
  processed in order against the table as the earlier rows left it. Every row draws the
  next value of the sequence, also when it is then skipped for a conflict; a row is
  added with that value as its \<open>id\<close>, which \<open>PRIMARY KEY\<close> requires to be new. The
  result is the table, the sequence and the number of rows added, or the error together
  with the sequence, which a rollback does not restore.
\<close>

fun coerce_rows :: "job_dict list \<Rightarrow> db_error + job_dict list" where
  "coerce_rows [] = Inr []"
| "coerce_rows (j # js) =
     (case coerce_row j of
        Inl e \<Rightarrow> Inl e
      | Inr v \<Rightarrow> (case coerce_rows js of Inl e \<Rightarrow> Inl e | Inr vs \<Rightarrow> Inr (v # vs)))"

fun insert_rows ::
  "nat \<Rightarrow> job_dict list \<Rightarrow> job_row list \<Rightarrow> nat \<Rightarrow> int
     \<Rightarrow> (db_error \<times> nat) + (job_row list \<times> nat \<times> int)" where
  "insert_rows now [] tbl sq cnt = Inr (tbl, sq, cnt)"
| "insert_rows now (v # vs) tbl sq cnt =
     (if url_conflict (job_url v) tbl then insert_rows now vs tbl (Suc sq) cnt
      else if Suc sq \<in> set (map job_id tbl) then Inl (UniqueViolation, Suc sq)
      else insert_rows now vs (tbl @ [new_row (Suc sq) now v]) (Suc sq) (cnt + 1))"

definition insert_values ::
  "nat \<Rightarrow> job_dict list \<Rightarrow> job_row list \<Rightarrow> nat
     \<Rightarrow> (db_error \<times> nat) + (job_row list \<times> nat \<times> int)" where
  "insert_values now js tbl sq =
     (case coerce_rows js of
        Inl e \<Rightarrow> Inl (e, sq)
      | Inr vs \<Rightarrow> insert_rows now vs tbl sq 0)"

text \<open>
  \<open>psycopg2.extras.execute_values(cursor, sql, job_tuples)\<close> with its default
  \<open>page_size=100\<close>: the tuples are cut into pages of at most 100; for each page all
  its tuples are adapted (a NUL character raises \<open>ValueError\<close> before the page is
  sent) and one statement is executed. \<open>cursor.rowcount\<close> is the row count of the
  statement executed last; it is \<open>-1\<close> before the first one.
\<close>

definition page_size :: nat where
  "page_size = 100"

function paginate :: "nat \<Rightarrow> 'a list \<Rightarrow> 'a list list" where
  "paginate n xs =
     (if n = 0 \<or> xs = [] then [] else take n xs # paginate n (drop n xs))"
  by pat_completeness auto
termination
  by (relation "measure (\<lambda>(n, xs). length xs)") auto

declare paginate.simps [simp del]

fun execute_pages ::
  "nat \<Rightarrow> job_dict list list \<Rightarrow> job_row list \<Rightarrow> nat \<Rightarrow> int \<Rightarrow> sql_event list
     \<Rightarrow> (py_exception \<times> nat \<times> sql_event list) +
        (job_row list \<times> nat \<times> int \<times> sql_event list)" where
  "execute_pages now [] tbl sq rowcount tr = Inr (tbl, sq, rowcount, tr)"
| "execute_pages now (p # ps) tbl sq rowcount tr =
     (if list_ex tuple_has_nul p then Inl (ValueError, sq, tr)
      else
        (case insert_values now p tbl sq of
           Inl (e, sq') \<Rightarrow> Inl (Psycopg2Error e, sq', tr @ [ExecuteInsert])
         | Inr (tbl', sq', n) \<Rightarrow> execute_pages now ps tbl' sq' n (tr @ [ExecuteInsert])))"

definition execute_values ::
  "nat \<Rightarrow> job_dict list \<Rightarrow> world
     \<Rightarrow> (py_exception \<times> nat \<times> sql_event list) +
        (job_row list \<times> nat \<times> int \<times> sql_event list)" where
  "execute_values now job_tuples s =
     execute_pages now (paginate page_size job_tuples) (job_listings s) (id_seq s) (- 1)
       (sql_trace s)"

text \<open>
  \<open>DatabaseManager.bulk_insert_jobs\<close>, on an open connection (\<open>__enter__\<close> ends
  the process when it cannot connect). \<open>now\<close> is \<open>CURRENT_TIMESTAMP\<close> of the
  transaction. The result is the value returned (\<open>Inr\<close>) or the exception that
  leaves the method (\<open>Inl\<close>), and the state. On success the transaction is committed
  and \<open>cursor.rowcount\<close> is returned; a \<open>psycopg2.Error\<close> is logged, the
  transaction is rolled back (the table is the one before the call) and 0 is returned.
  A \<open>ValueError\<close> is not caught: it leaves the method and, uncaught in \<open>main\<close>,
  ends the script; the connection is closed without a commit, so the table is the one
  before the call.
\<close>

definition bulk_insert_jobs ::
  "nat \<Rightarrow> job_dict list \<Rightarrow> world \<Rightarrow> (py_exception + int) \<times> world" where
  "bulk_insert_jobs now jobs s =
     (if jobs = [] then (Inr 0, s)
      else
        (case execute_values now jobs s of
           Inr (tbl, sq, rowcount, tr) \<Rightarrow>
             (Inr rowcount, s\<lparr>job_listings := tbl, id_seq := sq, sql_trace := tr @ [Commit]\<rparr>)
         | Inl (exn, sq, tr) \<Rightarrow>
             (case exn of
                Psycopg2Error e \<Rightarrow>
                  (Inr 0, logging ERROR ''Database bulk insert error''
                            (s\<lparr>id_seq := sq, sql_trace := tr @ [Rollback]\<rparr>))
              | ValueError \<Rightarrow> (Inl ValueError, s\<lparr>id_seq := sq, sql_trace := tr\<rparr>))))"

section \<open>The listing harvester (part2\_scrape.py)\<close>

















section \<open>The description backfiller (part3\_scrape\_JD.py)\<close>

text \<open>
  SQL \<open>trim(text)\<close> removes space characters (and no other character) from both
  ends. \<open>needs_description\<close> is the \<open>WHERE\<close> clause
  \<open>job_description IS NULL OR trim(job_description) = ''\<close>.
\<close>

definition sql_trim :: "string \<Rightarrow> string" where
  "sql_trim s =
     rev (dropWhile (\<lambda>c. c = CHR '' '') (rev (dropWhile (\<lambda>c. c = CHR '' '') s)))"

definition needs_description :: "job_row \<Rightarrow> bool" where
  "needs_description r =
     (case job_description r of None \<Rightarrow> True | Some d \<Rightarrow> sql_trim d = [])"

text \<open>
  \<open>DatabaseManager.get_jobs_to_update\<close>. The \<open>LIMIT\<close> clause is added when
  \<open>limit\<close> is truthy, that is neither \<open>None\<close> nor 0. A negative \<open>LIMIT\<close>, and
  one that is not a \<open>bigint\<close> (\<open>2^63\<close> or more), is an error of the database,
  which the method does not catch.
\<close>

definition get_jobs_to_update ::
  "int option \<Rightarrow> world \<Rightarrow> (db_error + (nat \<times> string option) list) \<times> world" where
  "get_jobs_to_update limit s =
     (let selected = map (\<lambda>r. (job_id r, job_url r))
                       (sort_key job_id (filter needs_description (job_listings s)));
          s' = s\<lparr>sql_trace := sql_trace s @ [ExecuteSelect]\<rparr>
      in case limit of
           None \<Rightarrow> (Inr selected, s')
         | Some n \<Rightarrow>
             if n = 0 then (Inr selected, s')
             else if n < 0 then (Inl InvalidRowCountInLimitClause, s')
             else if 2 ^ 63 \<le> n then (Inl NumericValueOutOfRange, s')
             else (Inr (take (nat n) selected), s'))"

text \<open>
  \<open>DatabaseManager.update_description\<close>:
  \<open>UPDATE job_listings SET job_description = %s WHERE id = %s\<close>, then \<open>commit\<close>.
  A description with a NUL character cannot be adapted: \<open>ValueError\<close> leaves the
  method before the statement is sent.
\<close>

definition update_description ::
  "nat \<Rightarrow> string \<Rightarrow> world \<Rightarrow> (py_exception + unit) \<times> world" where
  "update_description i description s =
     (if CHR 0x00 \<in> set description then (Inl ValueError, s)
      else
        (Inr (),
         s\<lparr>job_listings :=
              map (\<lambda>r. if job_id r = i then r\<lparr>job_description := Some description\<rparr> else r)
                (job_listings s),
           sql_trace := sql_trace s @ [ExecuteUpdate, Commit]\<rparr>))"







section \<open>Reachable states\<close>


section \<open>Invariants and example data\<close>





text \<open>
  Further example data: candidates with pairwise different urls, a listing page of three
  list items, and rows of the table.
\<close>

definition fresh_job :: "nat \<Rightarrow> job_dict" where
  "fresh_job i =
     \<lparr>job_title = Some ''Engineer'', company_name = Some ''Acme'', location = Some ''Remote'',
      job_url = Some (''https://weworkremotely.com/remote-jobs/'' @ replicate i (CHR ''x'')),
      salary_info = None, source_site = Some ''WeWorkRemotely''\<rparr>"










definition example_row :: "nat \<Rightarrow> string option \<Rightarrow> job_row" where
  "example_row i d = (new_row i 7 (fresh_job i))\<lparr>job_description := d\<rparr>"

definition example_world :: "job_row list \<Rightarrow> world" where
  "example_world tbl = \<lparr>job_listings = tbl, id_seq = 10, sql_trace = [], log = []\<rparr>"

text \<open>
  The reading of ``consists only of whitespace'' with Python's notion of whitespace,
  against which the \<open>WHERE\<close> clause is compared; a row whose description is a tab;
  four rows with the descriptions of the specification's example.
\<close>

definition whitespace_only :: "string \<Rightarrow> bool" where
  "whitespace_only d = (strip d = [])"

definition tab_row :: job_row where
  "tab_row = example_row 1 (Some [CHR 0x09])"

definition blank_rows :: "job_row list" where
  "blank_rows =
     [example_row 3 (Some ''''), example_row 1 (Some ''   ''),
      example_row 2 (Some ''Remote position.''), example_row 4 None]"







section \<open>Bulk insertion: one statement\<close>








lemma coerce_rows_bad:
  "j \<in> set js \<Longrightarrow> coerce_row j = Inl e \<Longrightarrow> \<exists>e'. coerce_rows js = Inl e'"
  by (induction js) (auto split: sum.splits)

lemma coerce_rows_id:
  "list_all (\<lambda>j. coerce_row j = Inr j) js \<Longrightarrow> coerce_rows js = Inr js"
  by (induction js) auto





lemma insert_rows_append:
  "insert_rows now vs tbl sq cnt = Inr (tbl', sq', cnt') \<Longrightarrow>
   \<exists>new. tbl' = tbl @ new \<and> cnt' = cnt + int (length new) \<and>
     list_all (\<lambda>r. job_description r = None \<and> scraped_at r = now) new"
proof (induction vs arbitrary: tbl sq cnt)
  case Nil
  then show ?case by simp
next
  case (Cons v vs)
  show ?case
  proof (cases "url_conflict (job_url v) tbl")
    case True
    with Cons.prems have "insert_rows now vs tbl (Suc sq) cnt = Inr (tbl', sq', cnt')"
      by simp
    then show ?thesis by (rule Cons.IH)
  next
    case False
    with Cons.prems have
      "insert_rows now vs (tbl @ [new_row (Suc sq) now v]) (Suc sq) (cnt + 1) = Inr (tbl', sq', cnt')"
      by (simp split: if_splits)
    from Cons.IH[OF this] obtain new where
      "tbl' = (tbl @ [new_row (Suc sq) now v]) @ new" "cnt' = cnt + 1 + int (length new)"
      "list_all (\<lambda>r. job_description r = None \<and> scraped_at r = now) new"
      by blast
    then show ?thesis
      by (intro exI[of _ "new_row (Suc sq) now v # new"]) (simp add: new_row_def)
  qed
qed







lemma insert_values_Inr:
  "insert_values now js tbl sq = Inr res \<Longrightarrow>
   \<exists>vs. coerce_rows js = Inr vs \<and> insert_rows now vs tbl sq 0 = Inr res"
  by (auto simp: insert_values_def split: sum.splits)



lemma insert_values_append:
  assumes "insert_values now js tbl sq = Inr (tbl', sq', n)"
  shows "\<exists>new. tbl' = tbl @ new \<and> n = int (length new) \<and>
     list_all (\<lambda>r. job_description r = None \<and> scraped_at r = now) new"
proof -
  from insert_values_Inr[OF assms] obtain vs where
    "insert_rows now vs tbl sq 0 = Inr (tbl', sq', n)" by blast
  from insert_rows_append[OF this] show ?thesis by simp
qed




lemma insert_values_bad:
  assumes "j \<in> set js" "coerce_row j = Inl e"
  shows "\<exists>e'. insert_values now js tbl sq = Inl (e', sq)"
  using coerce_rows_bad[OF assms] by (auto simp: insert_values_def)



section \<open>Bulk insertion: the pages of a batch\<close>



lemma paginate_single: "xs \<noteq> [] \<Longrightarrow> length xs \<le> n \<Longrightarrow> paginate n xs = [xs]"
  by (cases n; cases xs) (simp_all add: paginate.simps[of _ "_ # _"] paginate.simps[of _ "[]"])











section \<open>Bulk insertion: the transaction\<close>

lemma execute_values_Nil:
  "execute_values now [] s = Inr (job_listings s, id_seq s, - 1, sql_trace s)"
  by (simp add: execute_values_def paginate.simps)

lemma bulk_insert_jobs_Inr:
  assumes "execute_values now jobs s = Inr (tbl, sq, rc, tr)" "jobs \<noteq> []"
  shows "bulk_insert_jobs now jobs s =
           (Inr rc, s\<lparr>job_listings := tbl, id_seq := sq, sql_trace := tr @ [Commit]\<rparr>)"
  using assms by (simp add: bulk_insert_jobs_def)

lemma bulk_insert_jobs_db_error:
  assumes "execute_values now jobs s = Inl (Psycopg2Error e, sq, tr)"
  shows "bulk_insert_jobs now jobs s =
           (Inr 0, logging ERROR ''Database bulk insert error''
                 (s\<lparr>id_seq := sq, sql_trace := tr @ [Rollback]\<rparr>))"
proof -
  have "jobs \<noteq> []" using assms by (auto simp: execute_values_Nil)
  then show ?thesis using assms by (simp add: bulk_insert_jobs_def)
qed

lemma bulk_insert_jobs_ValueError:
  assumes "execute_values now jobs s = Inl (ValueError, sq, tr)"
  shows "bulk_insert_jobs now jobs s = (Inl ValueError, s\<lparr>id_seq := sq, sql_trace := tr\<rparr>)"
proof -
  have "jobs \<noteq> []" using assms by (auto simp: execute_values_Nil)
  then show ?thesis using assms by (simp add: bulk_insert_jobs_def)
qed

lemma bulk_insert_jobs_Inl_rows:
  assumes "execute_values now jobs s = Inl (exn, sq, tr)"
  shows "job_listings (snd (bulk_insert_jobs now jobs s)) = job_listings s \<and>
         id_seq (snd (bulk_insert_jobs now jobs s)) = sq"
  using assms bulk_insert_jobs_db_error[of now jobs s _ sq tr]
    bulk_insert_jobs_ValueError[of now jobs s sq tr]
  by (cases exn) (simp_all add: logging_def)










section \<open>The uniqueness invariant\<close>










section \<open>The row count of a paginated batch\<close>

lemma insert_rows_fresh:
  assumes "list_all (\<lambda>v. job_url v \<noteq> None \<and> job_url v \<notin> set (map job_url tbl)) vs"
    and "distinct (map job_url vs)"
    and "list_all (\<lambda>r. job_id r \<le> sq) tbl"
  shows "\<exists>new. insert_rows now vs tbl sq cnt =
             Inr (tbl @ new, sq + length vs, cnt + int (length vs)) \<and>
           map job_url new = map job_url vs \<and>
           list_all (\<lambda>r. job_id r \<le> sq + length vs) (tbl @ new)"
  using assms
proof (induction vs arbitrary: tbl sq cnt)
  case Nil
  then show ?case by simp
next
  case (Cons v vs)
  let ?row = "new_row (Suc sq) now v"
  from Cons.prems(1) have v: "job_url v \<noteq> None" "job_url v \<notin> set (map job_url tbl)"
    by simp_all
  have noconf: "\<not> url_conflict (job_url v) tbl"
    using v(2) by (simp add: url_conflict_def)
  have fresh: "Suc sq \<notin> set (map job_id tbl)"
    using Cons.prems(3) by (auto simp: list_all_iff)
  have step: "insert_rows now (v # vs) tbl sq cnt =
      insert_rows now vs (tbl @ [?row]) (Suc sq) (cnt + 1)"
    using noconf fresh by simp
  have a: "list_all (\<lambda>v. job_url v \<noteq> None \<and>
                        job_url v \<notin> set (map job_url (tbl @ [?row]))) vs"
    using Cons.prems(1,2) by (auto simp: list_all_iff new_row_def) (metis imageI)
  have b: "distinct (map job_url vs)" using Cons.prems(2) by simp
  have c: "list_all (\<lambda>r. job_id r \<le> Suc sq) (tbl @ [?row])"
    using Cons.prems(3) by (auto simp: list_all_iff new_row_def)
  from Cons.IH[OF a b c, of "cnt + 1"] obtain new where new:
    "insert_rows now vs (tbl @ [?row]) (Suc sq) (cnt + 1) =
       Inr ((tbl @ [?row]) @ new, Suc sq + length vs, cnt + 1 + int (length vs))"
    "map job_url new = map job_url vs"
    "list_all (\<lambda>r. job_id r \<le> Suc sq + length vs) ((tbl @ [?row]) @ new)"
    by blast
  show ?case
    using step new by (intro exI[of _ "?row # new"]) (simp add: new_row_def)
qed

lemma insert_values_fresh:
  assumes "list_all (\<lambda>j. coerce_row j = Inr j) js"
    and "list_all (\<lambda>v. job_url v \<noteq> None \<and> job_url v \<notin> set (map job_url tbl)) js"
    and "distinct (map job_url js)"
    and "list_all (\<lambda>r. job_id r \<le> sq) tbl"
  shows "\<exists>new. insert_values now js tbl sq =
             Inr (tbl @ new, sq + length js, int (length js)) \<and>
           map job_url new = map job_url js \<and>
           list_all (\<lambda>r. job_id r \<le> sq + length js) (tbl @ new)"
  using insert_rows_fresh[OF assms(2,3,4), of now 0] coerce_rows_id[OF assms(1)]
  by (simp add: insert_values_def)

lemma coerce_fresh: "i \<le> 400 \<Longrightarrow> coerce_row (fresh_job i) = Inr (fresh_job i)"
  by (simp add: coerce_row_def fresh_job_def varchar_def)

lemma nul_free_fresh: "\<not> tuple_has_nul (fresh_job i)"
  by (simp add: tuple_has_nul_def has_nul_def fresh_job_def)

lemma job_url_fresh_inj: "(job_url (fresh_job i) = job_url (fresh_job j)) = (i = j)"
proof
  assume "job_url (fresh_job i) = job_url (fresh_job j)"
  then have "replicate i (CHR ''x'') = replicate j (CHR ''x'')"
    by (simp add: fresh_job_def)
  then have "length (replicate i (CHR ''x'')) = length (replicate j (CHR ''x''))"
    by (rule arg_cong)
  then show "i = j" by simp
qed simp

lemma fresh_page:
  assumes "n \<le> 400"
  shows "list_all (\<lambda>j. coerce_row j = Inr j) (map fresh_job [0..<n])"
    and "list_all (\<lambda>v. job_url v \<noteq> None \<and> job_url v \<notin> set (map job_url []))
           (map fresh_job [0..<n])"
    and "distinct (map job_url (map fresh_job [0..<n]))"
    and "\<not> list_ex tuple_has_nul (map fresh_job [0..<n])"
proof -
  show "list_all (\<lambda>j. coerce_row j = Inr j) (map fresh_job [0..<n])"
    using assms by (auto simp: list_all_iff coerce_fresh)
  show "list_all (\<lambda>v. job_url v \<noteq> None \<and> job_url v \<notin> set (map job_url []))
           (map fresh_job [0..<n])"
    by (auto simp: list_all_iff) (simp add: fresh_job_def)
  show "distinct (map job_url (map fresh_job [0..<n]))"
    by (auto simp: distinct_map inj_on_def job_url_fresh_inj)
  show "\<not> list_ex tuple_has_nul (map fresh_job [0..<n])"
    by (auto simp: list_ex_iff nul_free_fresh)
qed

text \<open>
  Claim C1. \<open>bulk_insert_jobs\<close> is meant to return the number of rows it added, and
  \<open>main\<close> prints the value as ``New jobs inserted into database''. It returns
  \<open>cursor.rowcount\<close>, which after \<open>execute_values\<close> counts the rows of the last page
  only. For 101 fresh candidates and the empty table, 101 rows are added and 1 is
  returned.
\<close>

theorem bulk_insert_jobs_rowcount_last_page:
  "fst (bulk_insert_jobs 7 (map fresh_job [0..<101]) init_world) = Inr 1 \<and>
   length (job_listings (snd (bulk_insert_jobs 7 (map fresh_job [0..<101]) init_world))) = 101"
proof -
  let ?jobs = "map fresh_job [0..<101]"
  let ?p1 = "map fresh_job [0..<100]"
  have take: "take 100 ?jobs = ?p1" by (simp add: take_map)
  have drop: "drop 100 ?jobs = [fresh_job 100]" by (simp add: drop_map)
  have ne: "?jobs \<noteq> []" by simp
  have pages: "paginate page_size ?jobs = [?p1, [fresh_job 100]]"
    unfolding page_size_def
    by (subst paginate.simps, simp only: take drop, subst paginate.simps, subst paginate.simps)
       simp
  from insert_values_fresh[OF fresh_page(1)[of 100] fresh_page(2)[of 100] fresh_page(3)[of 100],
      of 0 7]
  obtain new where new:
    "insert_values 7 ?p1 [] 0 = Inr (new, 100, 100)"
    "map job_url new = map job_url ?p1"
    "list_all (\<lambda>r. job_id r \<le> 100) new"
    by auto
  have len: "length new = 100"
    using arg_cong[OF new(2), of length] by simp
  have notin: "job_url (fresh_job 100) \<notin> set (map job_url new)"
    unfolding new(2) by (auto simp: job_url_fresh_inj)
  have noconf: "\<not> url_conflict (job_url (fresh_job 100)) new"
    using notin by (simp add: url_conflict_def)
  have idfresh: "Suc 100 \<notin> set (map job_id new)"
    using new(3) by (auto simp: list_all_iff)
  have p2: "insert_values 7 [fresh_job 100] new 100 =
      Inr (new @ [new_row 101 7 (fresh_job 100)], 101, 1)"
    using noconf idfresh by (simp add: insert_values_def coerce_fresh)
  have nonul: "\<not> list_ex tuple_has_nul ?p1" "\<not> list_ex tuple_has_nul [fresh_job 100]"
    using fresh_page(4)[of 100] by (simp_all add: nul_free_fresh)
  have ev: "execute_values 7 ?jobs init_world =
      Inr (new @ [new_row 101 7 (fresh_job 100)], 101, 1, [ExecuteInsert, ExecuteInsert])"
    unfolding execute_values_def pages
    using new(1) p2 nonul by (simp add: init_world_def)
  show ?thesis
    using bulk_insert_jobs_Inr[OF ev ne] len by simp
qed

section \<open>Batches of one page\<close>

text \<open>
  For a batch of at most \<open>page_size\<close> candidates there is one statement, and a value
  that is returned is the number of rows the call added (0 when the batch was rolled
  back); when the call raises, no row is added.
\<close>

theorem bulk_insert_jobs_count_single_page:
  assumes "length jobs \<le> page_size"
  shows "(\<forall>n. fst (bulk_insert_jobs now jobs s) = Inr n \<longrightarrow>
            int (length (job_listings (snd (bulk_insert_jobs now jobs s)))) =
            int (length (job_listings s)) + n) \<and>
         (\<forall>exn. fst (bulk_insert_jobs now jobs s) = Inl exn \<longrightarrow>
            job_listings (snd (bulk_insert_jobs now jobs s)) = job_listings s)"
proof (cases "jobs = []")
  case True
  then show ?thesis by (simp add: bulk_insert_jobs_def)
next
  case False
  with assms have pages: "paginate page_size jobs = [jobs]" by (simp add: paginate_single)
  show ?thesis
  proof (cases "execute_values now jobs s")
    case (Inl err)
    obtain exn sq tr where err: "err = (exn, sq, tr)" by (cases err)
    from bulk_insert_jobs_Inl_rows[OF Inl[unfolded err]]
      bulk_insert_jobs_db_error[of now jobs s _ sq tr]
      bulk_insert_jobs_ValueError[of now jobs s sq tr] Inl err
    show ?thesis by (cases exn) auto
  next
    case (Inr res)
    obtain tbl sq n tr where res: "res = (tbl, sq, n, tr)" by (cases res)
    from Inr res have "insert_values now jobs (job_listings s) (id_seq s) = Inr (tbl, sq, n)"
      by (auto simp: execute_values_def pages split: if_splits sum.splits)
    from insert_values_append[OF this] obtain new where
      "tbl = job_listings s @ new" "n = int (length new)" by blast
    then show ?thesis using bulk_insert_jobs_Inr[OF Inr[unfolded res] False] by simp
  qed
qed

lemma two_fresh: "map fresh_job [0..<2] = [fresh_job 0, fresh_job (Suc 0)]"
  by (simp add: upt_rec)

text \<open>
  Two fresh candidates into the empty table: 2 is returned and two rows are stored.
\<close>

theorem bulk_insert_jobs_count_single_page_witness:
  "length (map fresh_job [0..<2]) \<le> page_size \<and>
   fst (bulk_insert_jobs 7 (map fresh_job [0..<2]) init_world) = Inr 2 \<and>
   length (job_listings (snd (bulk_insert_jobs 7 (map fresh_job [0..<2]) init_world))) = 2"
proof -
  have le: "length (map fresh_job [0..<2]) \<le> page_size" by (simp add: page_size_def)
  have c0: "coerce_row (fresh_job 0) = Inr (fresh_job 0)"
    "coerce_row (fresh_job (Suc 0)) = Inr (fresh_job (Suc 0))"
    by (simp_all add: coerce_fresh)
  have ne: "job_url (fresh_job (Suc 0)) \<noteq> job_url (fresh_job 0)"
    by (simp add: job_url_fresh_inj)
  have u: "job_url (fresh_job (Suc 0)) \<noteq> None" "job_url (fresh_job 0) \<noteq> None"
    by (simp_all add: fresh_job_def)
  have r: "fst (bulk_insert_jobs 7 (map fresh_job [0..<2]) init_world) = Inr 2"
    unfolding two_fresh
    using ne u
    by (simp add: bulk_insert_jobs_def execute_values_def page_size_def paginate.simps c0
        insert_values_def url_conflict_def init_world_def new_row_def nul_free_fresh)
  from bulk_insert_jobs_count_single_page[OF le, of 7 init_world] r
  have "int (length (job_listings (snd (bulk_insert_jobs 7 (map fresh_job [0..<2]) init_world)))) =
      int (length (job_listings init_world)) + 2"
    by blast
  with r le show ?thesis by (simp add: init_world_def)
qed

section \<open>Running phase 1 twice\<close>











section \<open>Field extraction\<close>









section \<open>Examples of both phases\<close>










text \<open>
  Claim C9, amended. \<open>update_description\<close> changes nothing but the
  \<open>job_description\<close> of the rows with the given id: the table keeps its length and
  order, every row with another id is unchanged, every row differs from the old one in
  \<open>job_description\<close> at most (so \<open>id\<close> and \<open>scraped_at\<close> are kept), and the
  sequence and the log are unchanged. For a text without a NUL character the rows with
  the id get the text, and the statement is followed by a commit at once. For a text with
  a NUL character the call raises \<open>ValueError\<close>; nothing is written and nothing is
  committed.
\<close>

theorem update_description_frame:
  "length (job_listings (snd (update_description i d s))) = length (job_listings s) \<and>
   (\<forall>k < length (job_listings s).
      (job_id (job_listings s ! k) \<noteq> i \<longrightarrow>
         job_listings (snd (update_description i d s)) ! k = job_listings s ! k) \<and>
      (job_id (job_listings s ! k) = i \<and> CHR 0x00 \<notin> set d \<longrightarrow>
         job_listings (snd (update_description i d s)) ! k =
           (job_listings s ! k)\<lparr>job_description := Some d\<rparr>) \<and>
      (job_listings (snd (update_description i d s)) ! k)
          \<lparr>job_description := job_description (job_listings s ! k)\<rparr> = job_listings s ! k \<and>
      job_id (job_listings (snd (update_description i d s)) ! k) = job_id (job_listings s ! k) \<and>
      scraped_at (job_listings (snd (update_description i d s)) ! k) =
        scraped_at (job_listings s ! k)) \<and>
   id_seq (snd (update_description i d s)) = id_seq s \<and>
   log (snd (update_description i d s)) = log s \<and>
   (CHR 0x00 \<notin> set d \<longrightarrow>
      fst (update_description i d s) = Inr () \<and>
      sql_trace (snd (update_description i d s)) = sql_trace s @ [ExecuteUpdate, Commit]) \<and>
   (CHR 0x00 \<in> set d \<longrightarrow> update_description i d s = (Inl ValueError, s))"
  by (simp add: update_description_def)

text \<open>
  Three rows, the second updated: the first and the third are as before.
\<close>

theorem update_description_frame_witness:
  "CHR 0x00 \<notin> set ''Remote position.'' \<and>
   fst (update_description 2 ''Remote position.''
      (example_world [example_row 1 None, example_row 2 None, example_row 3 (Some '''')])) =
     Inr () \<and>
   job_listings (snd (update_description 2 ''Remote position.''
      (example_world [example_row 1 None, example_row 2 None, example_row 3 (Some '''')]))) =
     [example_row 1 None, example_row 2 (Some ''Remote position.''), example_row 3 (Some '''')] \<and>
   sql_trace (snd (update_description 2 ''Remote position.''
      (example_world [example_row 1 None, example_row 2 None, example_row 3 (Some '''')]))) =
     [ExecuteUpdate, Commit]"
  using update_description_frame[of 2 "''Remote position.''"
      "example_world [example_row 1 None, example_row 2 None, example_row 3 (Some '''')]"]
  by (simp add: update_description_def example_world_def example_row_def new_row_def)

text \<open>
  Claim C9 as stated fails for a text with a NUL character: the call raises
  \<open>ValueError\<close>, the description of the row is still \<open>NULL\<close>, and no statement
  and no commit has been issued.
\<close>

theorem update_description_nul_counterexample:
  "fst (update_description 2 [CHR ''a'', CHR 0x00] (example_world [example_row 2 None])) =
     Inl ValueError \<and>
   job_listings (snd (update_description 2 [CHR ''a'', CHR 0x00]
      (example_world [example_row 2 None]))) = [example_row 2 None] \<and>
   sql_trace (snd (update_description 2 [CHR ''a'', CHR 0x00]
      (example_world [example_row 2 None]))) = []"
  by (simp add: update_description_def example_world_def)

section \<open>Selecting the incomplete records\<close>

lemma dropWhile_Nil_iff: "(dropWhile P xs = []) = (\<forall>x \<in> set xs. P x)"
  by (induction xs) auto

lemma sql_trim_Nil_iff: "(sql_trim d = []) = (set d \<subseteq> {CHR '' ''})"
proof -
  let ?P = "\<lambda>c. c = CHR '' ''"
  have "(sql_trim d = []) = (\<forall>x \<in> set (dropWhile ?P d). ?P x)"
    unfolding sql_trim_def rev_is_Nil_conv dropWhile_Nil_iff set_rev ..
  also have "\<dots> = (dropWhile ?P d = [])"
  proof (cases "dropWhile ?P d")
    case Nil
    show ?thesis unfolding Nil by simp
  next
    case (Cons c cs)
    have "\<not> ?P (hd (dropWhile ?P d))"
      by (rule hd_dropWhile) (simp only: Cons, simp)
    then show ?thesis unfolding Cons by auto
  qed
  also have "\<dots> = (set d \<subseteq> {CHR '' ''})"
    by (auto simp: dropWhile_Nil_iff)
  finally show ?thesis .
qed

lemma needs_description_iff:
  "needs_description r =
     (job_description r = None \<or> (\<exists>d. job_description r = Some d \<and> set d \<subseteq> {CHR '' ''}))"
  by (simp add: needs_description_def sql_trim_Nil_iff split: option.splits)

text \<open>
  Claim C10. A limit of 0 is falsy, so no \<open>LIMIT\<close> clause is added:
  \<open>get_jobs_to_update 0\<close> does what \<open>get_jobs_to_update None\<close> does and returns every
  incomplete record.
\<close>

theorem get_jobs_to_update_zero_limit:
  "get_jobs_to_update (Some 0) s = get_jobs_to_update None s \<and>
   (\<exists>jobs. fst (get_jobs_to_update (Some 0) s) = Inr jobs \<and>
      length jobs = length (filter needs_description (job_listings s)) \<and>
      set jobs = (\<lambda>r. (job_id r, job_url r)) ` {r \<in> set (job_listings s). needs_description r})"
  by (auto simp: get_jobs_to_update_def Let_def)

text \<open>
  Of the four example rows three are incomplete, and the limit 0 returns all three.
\<close>

theorem get_jobs_to_update_zero_limit_witness:
  "fst (get_jobs_to_update (Some 0) (example_world blank_rows)) =
     Inr [(1, job_url (fresh_job 1)), (3, job_url (fresh_job 3)), (4, job_url (fresh_job 4))] \<and>
   fst (get_jobs_to_update (Some 0) (example_world blank_rows)) =
     fst (get_jobs_to_update None (example_world blank_rows))"
  using get_jobs_to_update_zero_limit[of "example_world blank_rows"]
  by (simp add: get_jobs_to_update_def Let_def example_world_def blank_rows_def example_row_def
      new_row_def needs_description_def sql_trim_def)

text \<open>
  Claim C3, as amended. Without a limit \<open>get_jobs_to_update\<close> returns exactly the
  records whose description is null or consists of space characters only (the empty
  string included), in non-decreasing order of id; with a positive limit \<open>n\<close> below
  \<open>2^63\<close> it returns the first \<open>n\<close> of them.
\<close>

theorem get_jobs_to_update_spaces:
  assumes "0 < n" "n < 2 ^ 63"
  shows "\<exists>all. fst (get_jobs_to_update None s) = Inr all \<and>
           fst (get_jobs_to_update (Some n) s) = Inr (take (nat n) all) \<and>
           sorted (map fst all) \<and>
           set all = (\<lambda>r. (job_id r, job_url r)) `
             {r \<in> set (job_listings s).
                job_description r = None \<or>
                (\<exists>d. job_description r = Some d \<and> set d \<subseteq> {CHR '' ''})} \<and>
           length all =
             length (filter (\<lambda>r. job_description r = None \<or>
                (\<exists>d. job_description r = Some d \<and> set d \<subseteq> {CHR '' ''})) (job_listings s))"
proof -
  let ?rows = "sort_key job_id (filter needs_description (job_listings s))"
  let ?all = "map (\<lambda>r. (job_id r, job_url r)) ?rows"
  have f: "filter needs_description (job_listings s) =
      filter (\<lambda>r. job_description r = None \<or>
                (\<exists>d. job_description r = Some d \<and> set d \<subseteq> {CHR '' ''})) (job_listings s)"
    by (rule filter_cong) (simp_all add: needs_description_iff)
  have 1: "fst (get_jobs_to_update None s) = Inr ?all"
    by (simp add: get_jobs_to_update_def Let_def)
  have 2: "fst (get_jobs_to_update (Some n) s) = Inr (take (nat n) ?all)"
    using assms by (simp add: get_jobs_to_update_def Let_def)
  have "map fst ?all = map job_id ?rows" by (simp add: comp_def)
  then have 3: "sorted (map fst ?all)" by (simp only: sorted_sort_key)
  have 4: "set ?all = (\<lambda>r. (job_id r, job_url r)) `
             {r \<in> set (job_listings s).
                job_description r = None \<or>
                (\<exists>d. job_description r = Some d \<and> set d \<subseteq> {CHR '' ''})}"
    by (auto simp: needs_description_iff)
  have 5: "length ?all = length (filter (\<lambda>r. job_description r = None \<or>
                (\<exists>d. job_description r = Some d \<and> set d \<subseteq> {CHR '' ''})) (job_listings s))"
    by (simp add: f)
  from 1 2 3 4 5 show ?thesis by blast
qed

text \<open>
  The rows with descriptions \<open>''\<close>, three spaces and \<open>NULL\<close> are returned in
  the order of their ids, the row with \<open>Remote position.\<close> is not; the limit 2 keeps
  the first two.
\<close>

theorem get_jobs_to_update_spaces_witness:
  "(0::int) < 2 \<and> (2::int) < 2 ^ 63 \<and>
   fst (get_jobs_to_update None (example_world blank_rows)) =
     Inr [(1, job_url (fresh_job 1)), (3, job_url (fresh_job 3)), (4, job_url (fresh_job 4))] \<and>
   fst (get_jobs_to_update (Some 2) (example_world blank_rows)) =
     Inr [(1, job_url (fresh_job 1)), (3, job_url (fresh_job 3))]"
  using get_jobs_to_update_spaces[of 2 "example_world blank_rows"]
  by (simp add: get_jobs_to_update_def Let_def example_world_def blank_rows_def example_row_def
      new_row_def needs_description_def sql_trim_def)

text \<open>
  Claim C3 as stated fails for whitespace other than the space character: a description
  that is a single tab consists only of whitespace (\<open>strip\<close> leaves nothing of it), yet
  SQL \<open>trim\<close> removes spaces only and the record is not returned. It also fails for
  the positive limit \<open>2^63\<close>, which is not a \<open>bigint\<close>: the query raises and
  returns no record.
\<close>

theorem get_jobs_to_update_tab_counterexample:
  "job_listings (example_world [tab_row]) = [tab_row] \<and>
   job_description tab_row = Some [CHR 0x09] \<and>
   whitespace_only [CHR 0x09] \<and>
   fst (get_jobs_to_update None (example_world [tab_row])) = Inr [] \<and>
   fst (get_jobs_to_update (Some 5) (example_world [tab_row])) = Inr [] \<and>
   fst (get_jobs_to_update (Some (2 ^ 63)) (example_world blank_rows)) =
     Inl NumericValueOutOfRange"
  by (simp add: get_jobs_to_update_def Let_def example_world_def tab_row_def example_row_def
      new_row_def needs_description_def sql_trim_def whitespace_only_def strip_def py_isspace_def)

section \<open>The backfill loop\<close>














section \<open>Five records, one failure\<close>







end
